theory Spec2Isabelle
  imports Main "HOL-Library.AList"
begin

section \<open>Values and documents\<close>

text \<open>
  The server (\<^verbatim>\<open>src/server.js\<close>) keeps three collections of JSON documents
  (\<^verbatim>\<open>db.users\<close>, \<^verbatim>\<open>db.messages\<close>, \<^verbatim>\<open>db.groups\<close>) and one presence object
  (\<^verbatim>\<open>onlineUsers\<close>). Documents are untyped in the source, so a document is a list of
  fields in key order, read with \<open>map_of\<close>; \<open>None\<close> stands for \<^verbatim>\<open>undefined\<close>.
  \<open>JDate\<close> is the value of \<^verbatim>\<open>new Date()\<close>, in milliseconds.
\<close>

datatype json =
    JNull
  | JBool bool
  | JNum int
  | JStr string
  | JDate nat
  | JArr "json list"
  | JObj "(string \<times> json) list"

type_synonym doc = "(string \<times> json) list"

text \<open>A connection handle (\<^verbatim>\<open>socket.id\<close>); every handle is a truthy value.\<close>

type_synonym sid = nat

text \<open>JavaScript truthiness, as used by \<^verbatim>\<open>if (x)\<close>, \<^verbatim>\<open>!x\<close> and \<^verbatim>\<open>x || y\<close>.\<close>

fun truthy :: "json option \<Rightarrow> bool" where
  "truthy None = False"
| "truthy (Some JNull) = False"
| "truthy (Some (JBool b)) = b"
| "truthy (Some (JNum n)) = (n \<noteq> 0)"
| "truthy (Some (JStr s)) = (s \<noteq> [])"
| "truthy (Some _) = True"

text \<open>\<^verbatim>\<open>x || d\<close> on a field that may be missing.\<close>

definition or_default :: "json option \<Rightarrow> json \<Rightarrow> json" where
  "or_default v d = (case v of None \<Rightarrow> d | Some x \<Rightarrow> if truthy (Some x) then x else d)"

text \<open>
  The property names that every JavaScript object inherits from \<^verbatim>\<open>Object.prototype\<close>.
  A read of such a name on an object that has no property of its own under it yields
  the inherited function or object.
\<close>

definition inherited_names :: "string list" where
  "inherited_names =
     [''constructor'', ''__defineGetter__'', ''__defineSetter__'', ''hasOwnProperty'',
      ''__lookupGetter__'', ''__lookupSetter__'', ''isPrototypeOf'', ''propertyIsEnumerable'',
      ''toString'', ''valueOf'', ''__proto__'', ''toLocaleString'']"

section \<open>The document store\<close>

text \<open>
  The store is the library behind \<^verbatim>\<open>db\<close>, used through \<^verbatim>\<open>findOne\<close>, \<^verbatim>\<open>find\<close>,
  \<^verbatim>\<open>insert\<close> and \<^verbatim>\<open>update\<close>. A collection is the list of its documents; the order in
  which the store lists them is taken to be the order of insertion. The store gives
  every document an \<^verbatim>\<open>_id\<close> of its own; that field is left out of the documents here.

  A store call has one of three outcomes. \<open>Done\<close> carries its result. \<open>Raised\<close> is an
  exception of the store. \<open>Unmodelled\<close> marks an input for which this theory does not
  say what the store does; nothing is claimed about such a call.
\<close>

datatype 'a outcome = Done 'a | Raised | Unmodelled

subsection \<open>What the store accepts\<close>

text \<open>
  Before it stores a document, on \<^verbatim>\<open>insert\<close> and on \<^verbatim>\<open>update\<close> alike, the store checks
  the field names at every depth: a name that contains \<^verbatim>\<open>.\<close> or starts with \<^verbatim>\<open>$\<close> is
  refused with an exception. Four names that start with \<^verbatim>\<open>$$\<close> belong to the store's
  file format; it lets them pass under conditions and reads them back as something
  else, which is not modelled. Neither is a document that brings an \<^verbatim>\<open>_id\<close>: the
  store refuses it or not by the ids it has given out. Nor is a document with a
  field under an inherited name: the store copies and reads documents as plain
  objects, so such a field shadows what the store's own code may rely on, and an
  assignment to \<^verbatim>\<open>__proto__\<close> sets the prototype of the copy instead of a field.
\<close>

datatype verdict = Accepted | Special | Refused

definition special_keys :: "string list" where
  "special_keys = [''$$date'', ''$$deleted'', ''$$indexCreated'', ''$$indexRemoved'']"

definition key_verdict :: "string \<Rightarrow> verdict" where
  "key_verdict k =
     (if k \<in> set special_keys \<or> k \<in> set inherited_names then Special
      else if k \<noteq> [] \<and> hd k = CHR ''$'' then Refused
      else if CHR ''.'' \<in> set k then Refused
      else Accepted)"

fun worse :: "verdict \<Rightarrow> verdict \<Rightarrow> verdict" where
  "worse Refused _ = Refused"
| "worse _ Refused = Refused"
| "worse Special _ = Special"
| "worse _ Special = Special"
| "worse Accepted Accepted = Accepted"

fun check :: "json \<Rightarrow> verdict" where
  "check (JObj fs) = fold worse (map (\<lambda>p. worse (key_verdict (fst p)) (check (snd p))) fs) Accepted"
| "check (JArr xs) = fold worse (map check xs) Accepted"
| "check _ = Accepted"

definition doc_verdict :: "doc \<Rightarrow> verdict" where
  "doc_verdict d =
     (case check (JObj d) of
        Refused \<Rightarrow> Refused
      | v \<Rightarrow> if ''_id'' \<in> fst ` set d then Special else v)"

definition vet :: "doc \<Rightarrow> doc outcome" where
  "vet d = (case doc_verdict d of Accepted \<Rightarrow> Done d | Special \<Rightarrow> Unmodelled | Refused \<Rightarrow> Raised)"

subsection \<open>Queries\<close>

text \<open>
  A query \<^verbatim>\<open>{field: name}\<close> with a string \<open>name\<close> selects the documents whose field
  equals the string, or is an array with an element that does (this is what makes
  \<^verbatim>\<open>find({ members: username })\<close> select the groups of a user).
\<close>

fun val_matches :: "json \<Rightarrow> string \<Rightarrow> bool" where
  "val_matches (JStr t) n = (t = n)"
| "val_matches (JArr xs) n = list_ex (\<lambda>x. val_matches x n) xs"
| "val_matches _ n = False"

definition field_is :: "string \<Rightarrow> string \<Rightarrow> doc \<Rightarrow> bool" where
  "field_is k n d = (case map_of d k of None \<Rightarrow> False | Some v \<Rightarrow> val_matches v n)"

text \<open>
  \<^verbatim>\<open>db.users.ensureIndex({ fieldName: 'username', unique: true })\<close> (line 22): the users
  collection is read and guarded through an index on \<^verbatim>\<open>username\<close>. A document is filed
  under its username value, or under each element when the value is an array; no two
  documents may be filed under the same key.
\<close>

definition index_keys :: "doc \<Rightarrow> json option list" where
  "index_keys d = (case map_of d ''username'' of Some (JArr xs) \<Rightarrow> map Some xs | v \<Rightarrow> [v])"

definition filed_under :: "string \<Rightarrow> doc \<Rightarrow> bool" where
  "filed_under n d = (Some (JStr n) \<in> set (index_keys d))"

definition clashes :: "doc list \<Rightarrow> doc \<Rightarrow> bool" where
  "clashes ds d = list_ex (\<lambda>k. list_ex (\<lambda>d'. k \<in> set (index_keys d')) ds) (index_keys d)"

text \<open>\<^verbatim>\<open>db.users.findOne({ username: n })\<close>.\<close>

definition find_user :: "doc list \<Rightarrow> string \<Rightarrow> doc option" where
  "find_user us n = find (filed_under n) us"

subsection \<open>Inserts\<close>

text \<open>
  \<^verbatim>\<open>insert(d)\<close> on a collection without an index of the program's, and on
  \<^verbatim>\<open>db.users\<close>, where it raises as well when the document would be filed under a key
  that is taken.
\<close>

definition insert_doc :: "doc list \<Rightarrow> doc \<Rightarrow> doc list outcome" where
  "insert_doc ds d =
     (case vet d of Done d' \<Rightarrow> Done (ds @ [d']) | Raised \<Rightarrow> Raised | Unmodelled \<Rightarrow> Unmodelled)"

definition insert_user :: "doc list \<Rightarrow> doc \<Rightarrow> doc list outcome" where
  "insert_user us d =
     (case vet d of
        Done d' \<Rightarrow> if clashes us d' then Raised else Done (us @ [d'])
      | Raised \<Rightarrow> Raised
      | Unmodelled \<Rightarrow> Unmodelled)"

subsection \<open>Updates\<close>

text \<open>
  \<^verbatim>\<open>update(query, modifier)\<close> is called without \<^verbatim>\<open>multi\<close>, so it rewrites the first
  document the query selects and leaves the collection alone when there is none. The
  rewritten document is checked like an inserted one.
\<close>

fun replace_first :: "(doc \<Rightarrow> bool) \<Rightarrow> doc \<Rightarrow> doc list \<Rightarrow> doc list" where
  "replace_first P d' [] = []"
| "replace_first P d' (d # ds) = (if P d then d' # ds else d # replace_first P d' ds)"

definition modified :: "(doc \<Rightarrow> doc outcome) \<Rightarrow> doc \<Rightarrow> doc outcome" where
  "modified f d = (case f d of Done d' \<Rightarrow> vet d' | Raised \<Rightarrow> Raised | Unmodelled \<Rightarrow> Unmodelled)"

text \<open>An update of a collection without an index of the program's (\<^verbatim>\<open>db.groups\<close>).\<close>

definition coll_update ::
  "(doc \<Rightarrow> bool) \<Rightarrow> (doc \<Rightarrow> doc outcome) \<Rightarrow> doc list \<Rightarrow> doc list outcome" where
  "coll_update P f ds =
     (case find P ds of
        None \<Rightarrow> Done ds
      | Some d \<Rightarrow>
          (case modified f d of
             Done d' \<Rightarrow> Done (replace_first P d' ds)
           | Raised \<Rightarrow> Raised
           | Unmodelled \<Rightarrow> Unmodelled))"

text \<open>
  \<^verbatim>\<open>db.users.update({ username: n }, modifier)\<close>: as above, and the store raises when the
  rewritten document would be filed under a key that another document holds.
\<close>

definition update_user ::
  "doc list \<Rightarrow> string \<Rightarrow> (doc \<Rightarrow> doc outcome) \<Rightarrow> doc list outcome" where
  "update_user us n f =
     (case find_user us n of
        None \<Rightarrow> Done us
      | Some d \<Rightarrow>
          (case modified f d of
             Done d' \<Rightarrow>
               if clashes (remove1 d us) d' then Raised
               else Done (replace_first (filed_under n) d' us)
           | Raised \<Rightarrow> Raised
           | Unmodelled \<Rightarrow> Unmodelled))"

subsection \<open>The modifier \<^verbatim>\<open>$set\<close>\<close>

text \<open>
  \<^verbatim>\<open>{ $set: data }\<close> writes every field of \<open>data\<close> in turn, in the order in which
  JavaScript lists the keys of the payload. A key is read as a path: it is split at
  every \<^verbatim>\<open>.\<close>, and all segments but the last walk into the record.
\<close>

fun split_dots :: "string \<Rightarrow> string list" where
  "split_dots [] = [[]]"
| "split_dots (c # cs) =
     (if c = CHR ''.'' then [] # split_dots cs
      else (case split_dots cs of [] \<Rightarrow> [[c]] | p # ps \<Rightarrow> (c # p) # ps))"

text \<open>A segment that JavaScript reads as an array index: decimal, without a leading zero.\<close>

definition digit_of :: "char \<Rightarrow> nat option" where
  "digit_of c = map_of (zip ''0123456789'' [0, 1, 2, 3, 4, 5, 6, 7, 8, 9]) c"

definition parse_index :: "string \<Rightarrow> nat option" where
  "parse_index s =
     (if s = [] \<or> (length s > 1 \<and> hd s = CHR ''0'') \<or> \<not> list_all (\<lambda>c. digit_of c \<noteq> None) s
      then None
      else Some (fold (\<lambda>c n. 10 * n + the (digit_of c)) s 0))"

text \<open>
  \<open>put path v t\<close> writes \<open>v\<close> at \<open>path\<close> inside the value \<open>t\<close>. A missing step is
  created as an empty object. Inside an array a step is an index: one that the array
  has, or the next one. A step into \<^verbatim>\<open>null\<close> raises. What happens on a step into a
  string, a number, a boolean or a date, past the end of an array, or on a step of an
  array that is no index, is not modelled; nor is a path with an inherited name as
  a segment, which may walk into what the record inherits.
\<close>

fun put :: "string list \<Rightarrow> json \<Rightarrow> json \<Rightarrow> json outcome" where
  "put [] v t = Done v"
| "put (k # ks) v (JObj fs) =
     (case put ks v (case map_of fs k of None \<Rightarrow> JObj [] | Some t \<Rightarrow> t) of
        Done x \<Rightarrow> Done (JObj (AList.update k x fs))
      | Raised \<Rightarrow> Raised
      | Unmodelled \<Rightarrow> Unmodelled)"
| "put (k # ks) v (JArr xs) =
     (case parse_index k of
        None \<Rightarrow> Unmodelled
      | Some n \<Rightarrow>
          if n < length xs then
            (case put ks v (xs ! n) of
               Done x \<Rightarrow> Done (JArr (xs[n := x]))
             | Raised \<Rightarrow> Raised
             | Unmodelled \<Rightarrow> Unmodelled)
          else if n = length xs then
            (case put ks v (JObj []) of
               Done x \<Rightarrow> Done (JArr (xs @ [x]))
             | Raised \<Rightarrow> Raised
             | Unmodelled \<Rightarrow> Unmodelled)
          else Unmodelled)"
| "put (k # ks) v JNull = Raised"
| "put (k # ks) v _ = Unmodelled"

definition set_field :: "string \<Rightarrow> json \<Rightarrow> doc \<Rightarrow> doc outcome" where
  "set_field key v d =
     (if list_ex (\<lambda>p. p \<in> set inherited_names) (split_dots key) then Unmodelled
      else
        (case put (split_dots key) v (JObj d) of
           Done (JObj d') \<Rightarrow> Done d'
         | Done _ \<Rightarrow> Unmodelled
         | Raised \<Rightarrow> Raised
         | Unmodelled \<Rightarrow> Unmodelled))"

fun set_fields :: "doc \<Rightarrow> doc \<Rightarrow> doc outcome" where
  "set_fields [] d = Done d"
| "set_fields ((k, v) # kvs) d =
     (case set_field k v d of
        Done d' \<Rightarrow> set_fields kvs d'
      | Raised \<Rightarrow> Raised
      | Unmodelled \<Rightarrow> Unmodelled)"

subsection \<open>The modifier \<^verbatim>\<open>$addToSet\<close>\<close>

text \<open>
  \<^verbatim>\<open>{ $addToSet: { k: v } }\<close> for a key without a \<^verbatim>\<open>.\<close>: a missing field becomes
  \<open>[v]\<close>, an array gets \<open>v\<close> appended unless it holds it already, and on any other
  value the store raises.
\<close>

definition add_to_set :: "string \<Rightarrow> json \<Rightarrow> doc \<Rightarrow> doc outcome" where
  "add_to_set k v d =
     (case map_of d k of
        None \<Rightarrow> Done (AList.update k (JArr [v]) d)
      | Some (JArr xs) \<Rightarrow> Done (if v \<in> set xs then d else AList.update k (JArr (xs @ [v])) d)
      | Some _ \<Rightarrow> Raised)"

section \<open>Server state and what a handler does\<close>

text \<open>
  \<open>sockets\<close> holds the live connections (\<^verbatim>\<open>io.sockets.sockets\<close>) with the value of
  \<^verbatim>\<open>socket.username\<close> of each (\<open>None\<close> while it is \<^verbatim>\<open>undefined\<close>); \<open>onlineUsers\<close> holds
  the properties that the presence object of line 38 has of its own.
\<close>

record state =
  users :: "doc list"
  messages :: "doc list"
  groups :: "doc list"
  onlineUsers :: "string \<rightharpoonup> sid"
  sockets :: "sid \<rightharpoonup> string option"

subsection \<open>The presence object\<close>

text \<open>
  \<^verbatim>\<open>let onlineUsers = {}\<close> is a plain object, so a read \<^verbatim>\<open>onlineUsers[n]\<close> that finds no
  property of its own under \<open>n\<close> falls back to what every object inherits: for the
  inherited names it yields a function or an object, which is truthy and is no handle.
\<close>

datatype slot = Handle sid | Inherited | Absent

definition lookup :: "(string \<rightharpoonup> sid) \<Rightarrow> string \<Rightarrow> slot" where
  "lookup m n =
     (case m n of
        Some h \<Rightarrow> Handle h
      | None \<Rightarrow> if n \<in> set inherited_names then Inherited else Absent)"

text \<open>
  \<^verbatim>\<open>onlineUsers[n] = socket.id\<close> (line 92). Under the name \<^verbatim>\<open>__proto__\<close> the assignment
  of a string stores nothing.
\<close>

definition store_handle :: "(string \<rightharpoonup> sid) \<Rightarrow> string \<Rightarrow> sid \<Rightarrow> (string \<rightharpoonup> sid)" where
  "store_handle m n h = (if n = ''__proto__'' then m else m(n \<mapsto> h))"

subsection \<open>Effects\<close>

text \<open>The human-readable texts of \<^verbatim>\<open>auth_error\<close> and \<^verbatim>\<open>error_msg\<close>, by source line.\<close>

datatype notice =
    UsernameTaken         \<comment> \<open>line 69\<close>
  | RegistrationFailed    \<comment> \<open>line 83\<close>
  | BadCredentials        \<comment> \<open>line 87\<close>
  | UserNotFound          \<comment> \<open>line 104\<close>
  | CannotAddSelf         \<comment> \<open>line 105\<close>
  | UserOffline           \<comment> \<open>line 111\<close>
  | NameReserved          \<comment> \<open>line 161\<close>

text \<open>The events the server emits, with their payloads.\<close>

datatype event =
    AuthError notice
  | AuthSuccess string
  | UpdateUserList "(string \<times> bool) list"
  | UpdateGroupList "doc list"
  | ReceiveRequest string
  | ErrorMsg notice
  | ProfileData "json option" json json "json option"
  | NewMsg doc
  | ChatHistory "doc list"

datatype collection = Users | Messages | Groups

text \<open>
  What a handler does, in program order. \<open>Emit h e\<close> is \<^verbatim>\<open>socket.emit\<close> or
  \<^verbatim>\<open>io.to(h).emit\<close> addressed to handle \<open>h\<close>. \<open>EmitInherited e\<close> is \<^verbatim>\<open>io.to(v).emit\<close>
  where \<open>v\<close> is an inherited value: it names a room that no connection is in.
  \<open>Wrote c\<close> is an \<^verbatim>\<open>insert\<close> or \<^verbatim>\<open>update\<close> on collection \<open>c\<close> that returned. \<open>Throw\<close>
  is an exception that no \<^verbatim>\<open>try\<close> catches: the handlers are \<^verbatim>\<open>async\<close>, the rejection
  is handled nowhere, and the runtime ends the server process, and with it every
  connection and the presence object. \<open>Beyond\<close> ends a call whose next step is not
  modelled; nothing is claimed about the rest of such a call.
\<close>

datatype effect = Emit sid event | EmitInherited event | Wrote collection | Throw | Beyond

definition crash :: "state \<Rightarrow> state" where
  "crash s = s\<lparr>onlineUsers := Map.empty, sockets := Map.empty\<rparr>"

text \<open>The state a call leaves, given the state it reached and its effects.\<close>

definition leave :: "state \<Rightarrow> effect list \<Rightarrow> state \<times> effect list" where
  "leave s es = (if Throw \<in> set es then crash s else s, es)"

definition ended :: "effect list \<Rightarrow> bool" where
  "ended es = (Throw \<in> set es \<or> Beyond \<in> set es)"

text \<open>\<^verbatim>\<open>socket.username\<close>, and the same value when it passes \<^verbatim>\<open>if (socket.username)\<close>.\<close>

definition raw_name :: "state \<Rightarrow> sid \<Rightarrow> string option" where
  "raw_name s c = (case sockets s c of None \<Rightarrow> None | Some r \<Rightarrow> r)"

definition identity :: "state \<Rightarrow> sid \<Rightarrow> string option" where
  "identity s c = (case raw_name s c of None \<Rightarrow> None | Some u \<Rightarrow> if u = [] then None else Some u)"

text \<open>
  \<^verbatim>\<open>onlineUsers[n] && io.to(onlineUsers[n]).emit(e)\<close>, as in lines 108-109, 151, 153
  and 170.
\<close>

definition push :: "state \<Rightarrow> string \<Rightarrow> event \<Rightarrow> effect list" where
  "push s n e =
     (case lookup (onlineUsers s) n of
        Handle h \<Rightarrow> [Emit h e]
      | Inherited \<Rightarrow> [EmitInherited e]
      | Absent \<Rightarrow> [])"

section \<open>The handlers\<close>

text \<open>
  Each handler is one function from the state before to the state after and the
  effects. A handler runs to completion, except \<open>authenticate\<close>, which is also given
  from its first \<^verbatim>\<open>await\<close> on. The payload fields that the source uses as names (user
  names, group names) are strings, and \<^verbatim>\<open>isRegistering\<close> and the \<^verbatim>\<open>isGroup\<close> of
  \<^verbatim>\<open>get_history\<close> stand for the truthiness of the payload field. The payloads that the
  source passes on whole (\<^verbatim>\<open>update_profile\<close>, \<^verbatim>\<open>chat_message\<close>) are documents.
\<close>

subsection \<open>Presence snapshot (lines 41-48)\<close>

text \<open>
  \<^verbatim>\<open>friends.map(f => ({ username: f, isOnline: !!onlineUsers[f] }))\<close>. A \<^verbatim>\<open>friends\<close>
  value that is truthy and no array has no \<^verbatim>\<open>map\<close>, and the call raises. The
  snapshot of a list with an entry that is no string is not modelled.
\<close>

definition name_of :: "json \<Rightarrow> string option" where
  "name_of v = (case v of JStr n \<Rightarrow> Some n | _ \<Rightarrow> None)"

definition names_of :: "json list \<Rightarrow> string list option" where
  "names_of vs = (if list_all (\<lambda>v. name_of v \<noteq> None) vs then Some (map (\<lambda>v. the (name_of v)) vs)
                  else None)"

definition is_online :: "state \<Rightarrow> string \<Rightarrow> bool" where
  "is_online s n = (lookup (onlineUsers s) n \<noteq> Absent)"

definition broadcastUserList :: "state \<Rightarrow> sid \<Rightarrow> effect list" where
  "broadcastUserList s c =
     (case identity s c of
        None \<Rightarrow> []
      | Some u \<Rightarrow>
          (case find_user (users s) u of
             None \<Rightarrow> []
           | Some d \<Rightarrow>
               (case map_of d ''friends'' of
                  Some (JArr fs) \<Rightarrow>
                    (case names_of fs of
                       None \<Rightarrow> [Beyond]
                     | Some ns \<Rightarrow> [Emit c (UpdateUserList (map (\<lambda>n. (n, is_online s n)) ns))])
                | v \<Rightarrow> if truthy v then [Throw] else [Emit c (UpdateUserList [])])))"

text \<open>\<^verbatim>\<open>db.groups.find({ members: u })\<close>.\<close>

definition groups_of :: "state \<Rightarrow> string \<Rightarrow> doc list" where
  "groups_of s u = filter (field_is ''members'' u) (groups s)"

subsection \<open>authenticate (lines 63-97)\<close>

definition default_avatar :: string where
  "default_avatar = ''/uploads/default-avatar.png''"

definition new_user :: "string \<Rightarrow> string \<Rightarrow> string \<Rightarrow> doc" where
  "new_user username hashedPassword email =
     [(''username'', JStr username), (''password'', JStr hashedPassword),
      (''email'', JStr email), (''avatar'', JStr default_avatar),
      (''bio'', JStr []), (''friends'', JArr [])]"

text \<open>Lines 91-92: bind the connection and register it.\<close>

definition bind_connection :: "state \<Rightarrow> sid \<Rightarrow> string \<Rightarrow> state" where
  "bind_connection s c username =
     s\<lparr>sockets := (sockets s)(c \<mapsto> Some username),
       onlineUsers := store_handle (onlineUsers s) username c\<rparr>"

text \<open>
  Lines 91-96, with the effects \<open>before\<close> them: report success and push the two
  snapshots. The friends snapshot is not awaited; when it raises, the group list is
  taken not to be sent any more.
\<close>

definition signed_in :: "state \<Rightarrow> sid \<Rightarrow> string \<Rightarrow> effect list \<Rightarrow> state \<times> effect list" where
  "signed_in s c username before =
     (let s' = bind_connection s c username;
          es = before @ Emit c (AuthSuccess username) # broadcastUserList s' c
      in if ended es then leave s' es
         else (s', es @ [Emit c (UpdateGroupList (groups_of s' username))]))"

text \<open>
  Lines 66-97, for the \<open>user\<close> that line 64 has read. Other handlers may have run
  since that read, so \<open>user\<close> need not be what the store holds now; the \<^verbatim>\<open>catch\<close> of
  lines 82-84 is for the insert that the unique key then refuses. \<open>hash\<close> and
  \<open>compare\<close> are \<^verbatim>\<open>bcrypt.hash(_, 10)\<close> and \<^verbatim>\<open>bcrypt.compare\<close>; \<^verbatim>\<open>compare\<close> raises, outside
  the \<^verbatim>\<open>try\<close>, on a stored password that is no string. \<^verbatim>\<open>email || ""\<close> is the string
  \<open>email\<close>.
\<close>

definition authenticate_from ::
  "doc option \<Rightarrow> (string \<Rightarrow> string) \<Rightarrow> (string \<Rightarrow> string \<Rightarrow> bool) \<Rightarrow> state \<Rightarrow> sid \<Rightarrow>
     string \<Rightarrow> string \<Rightarrow> string \<Rightarrow> bool \<Rightarrow> state \<times> effect list" where
  "authenticate_from user hash compare s c username password email isRegistering =
     (if isRegistering then
        (case user of
           Some _ \<Rightarrow> (s, [Emit c (AuthError UsernameTaken)])
         | None \<Rightarrow>
             (case insert_user (users s) (new_user username (hash password) email) of
                Raised \<Rightarrow> (s, [Emit c (AuthError RegistrationFailed)])
              | Unmodelled \<Rightarrow> (s, [Beyond])
              | Done us \<Rightarrow> signed_in (s\<lparr>users := us\<rparr>) c username [Wrote Users]))
      else
        (case user of
           None \<Rightarrow> (s, [Emit c (AuthError BadCredentials)])
         | Some d \<Rightarrow>
             (case map_of d ''password'' of
                Some (JStr h) \<Rightarrow>
                  if compare password h then signed_in s c username []
                  else (s, [Emit c (AuthError BadCredentials)])
              | _ \<Rightarrow> leave s [Throw])))"

text \<open>The whole handler when nothing else runs between line 64 and the rest.\<close>

definition authenticate ::
  "(string \<Rightarrow> string) \<Rightarrow> (string \<Rightarrow> string \<Rightarrow> bool) \<Rightarrow> state \<Rightarrow> sid \<Rightarrow>
     string \<Rightarrow> string \<Rightarrow> string \<Rightarrow> bool \<Rightarrow> state \<times> effect list" where
  "authenticate hash compare s c username password email isRegistering =
     authenticate_from (find_user (users s) username) hash compare s c
       username password email isRegistering"

subsection \<open>send_request and accept_request (lines 100-128)\<close>

definition send_request :: "state \<Rightarrow> sid \<Rightarrow> string \<Rightarrow> state \<times> effect list" where
  "send_request s c targetName =
     (case identity s c of
        None \<Rightarrow> (s, [])
      | Some me \<Rightarrow>
          (case find_user (users s) targetName of
             None \<Rightarrow> (s, [Emit c (ErrorMsg UserNotFound)])
           | Some targetUser \<Rightarrow>
               if map_of targetUser ''username'' = Some (JStr me)
               then (s, [Emit c (ErrorMsg CannotAddSelf)])
               else if lookup (onlineUsers s) targetName = Absent
               then (s, [Emit c (ErrorMsg UserOffline)])
               else (s, push s targetName (ReceiveRequest me))))"

text \<open>
  Lines 124-127: the other party gets a snapshot when the presence object holds a handle
  for it and that handle is a live connection.
\<close>

definition refresh_other :: "state \<Rightarrow> string \<Rightarrow> effect list" where
  "refresh_other s other =
     (case lookup (onlineUsers s) other of
        Handle h \<Rightarrow> if h \<in> dom (sockets s) then broadcastUserList s h else []
      | _ \<Rightarrow> [])"

definition accept_request :: "state \<Rightarrow> sid \<Rightarrow> string \<Rightarrow> state \<times> effect list" where
  "accept_request s c from =
     (case identity s c of
        None \<Rightarrow> (s, [])
      | Some me \<Rightarrow>
          (case update_user (users s) me (add_to_set ''friends'' (JStr from)) of
             Raised \<Rightarrow> leave s [Throw]
           | Unmodelled \<Rightarrow> (s, [Beyond])
           | Done us1 \<Rightarrow>
               (case update_user us1 from (add_to_set ''friends'' (JStr me)) of
                  Raised \<Rightarrow> leave (s\<lparr>users := us1\<rparr>) [Wrote Users, Throw]
                | Unmodelled \<Rightarrow> (s\<lparr>users := us1\<rparr>, [Wrote Users, Beyond])
                | Done us2 \<Rightarrow>
                    (let s' = s\<lparr>users := us2\<rparr>;
                         es = [Wrote Users, Wrote Users] @ broadcastUserList s' c
                     in if ended es then leave s' es
                        else leave s' (es @ refresh_other s' from)))))"

subsection \<open>get_profile and update_profile (lines 131-141)\<close>

text \<open>The placeholder of line 134, as the UTF-8 bytes of the source text.\<close>

definition no_bio :: string where
  "no_bio = [CHR 0xD9, CHR 0x84, CHR 0xD8, CHR 0xA7, CHR 0x20, CHR 0xD9, CHR 0x8A,
             CHR 0xD9, CHR 0x88, CHR 0xD8, CHR 0xAC, CHR 0xD8, CHR 0xAF, CHR 0x20,
             CHR 0xD9, CHR 0x88, CHR 0xD8, CHR 0xB5, CHR 0xD9, CHR 0x81]"

definition get_profile :: "state \<Rightarrow> sid \<Rightarrow> string \<Rightarrow> state \<times> effect list" where
  "get_profile s c target =
     (case find_user (users s) target of
        None \<Rightarrow> (s, [])
      | Some u \<Rightarrow>
          (s, [Emit c (ProfileData (map_of u ''username'')
                         (or_default (map_of u ''bio'') (JStr no_bio))
                         (or_default (map_of u ''avatar'') (JStr default_avatar))
                         (map_of u ''email''))]))"

definition update_profile :: "state \<Rightarrow> sid \<Rightarrow> doc \<Rightarrow> state \<times> effect list" where
  "update_profile s c data =
     (case identity s c of
        None \<Rightarrow> (s, [])
      | Some me \<Rightarrow>
          (case update_user (users s) me (set_fields data) of
             Raised \<Rightarrow> leave s [Throw]
           | Unmodelled \<Rightarrow> (s, [Beyond])
           | Done us \<Rightarrow> (s\<lparr>users := us\<rparr>, [Wrote Users])))"

subsection \<open>chat_message (lines 144-156)\<close>

text \<open>
  \<^verbatim>\<open>{ ...data, from: socket.username, timestamp: new Date() }\<close>: the payload as sent,
  with the two fields written over it; \<open>now\<close> is the server clock.
\<close>

definition build_msg :: "string \<Rightarrow> doc \<Rightarrow> nat \<Rightarrow> doc" where
  "build_msg me data now =
     AList.update ''timestamp'' (JDate now) (AList.update ''from'' (JStr me) data)"

text \<open>
  Lines 149-155, for a target \<open>to\<close>. \<^verbatim>\<open>group?.members.forEach\<close> raises when the group
  has no array of members; the fan-out to a list with a member that is no string is
  not modelled.
\<close>

definition deliver :: "state \<Rightarrow> sid \<Rightarrow> string \<Rightarrow> bool \<Rightarrow> doc \<Rightarrow> effect list" where
  "deliver s c to isGroup msg =
     (if isGroup then
        (case find (field_is ''name'' to) (groups s) of
           None \<Rightarrow> []
         | Some g \<Rightarrow>
             (case map_of g ''members'' of
                Some (JArr ms) \<Rightarrow>
                  (case names_of ms of
                     None \<Rightarrow> [Beyond]
                   | Some ns \<Rightarrow> concat (map (\<lambda>n. push s n (NewMsg msg)) ns))
              | _ \<Rightarrow> [Throw]))
      else push s to (NewMsg msg) @ [Emit c (NewMsg msg)])"

text \<open>
  The handler. The insert of line 147 raises when the store refuses the message. The
  routing of a message whose \<^verbatim>\<open>to\<close> is no string is not modelled.
\<close>

definition chat_message :: "state \<Rightarrow> sid \<Rightarrow> doc \<Rightarrow> nat \<Rightarrow> state \<times> effect list" where
  "chat_message s c data now =
     (case identity s c of
        None \<Rightarrow> (s, [])
      | Some me \<Rightarrow>
          (case insert_doc (messages s) (build_msg me data now) of
             Raised \<Rightarrow> leave s [Throw]
           | Unmodelled \<Rightarrow> (s, [Beyond])
           | Done ms \<Rightarrow>
               (let s' = s\<lparr>messages := ms\<rparr> in
                case map_of data ''to'' of
                  Some (JStr to) \<Rightarrow>
                    leave s' (Wrote Messages #
                               deliver s' c to (truthy (map_of data ''isGroup''))
                                 (build_msg me data now))
                | _ \<Rightarrow> (s', [Wrote Messages, Beyond]))))"

subsection \<open>create_group and add_member (lines 159-171)\<close>

definition new_group :: "string \<Rightarrow> string \<Rightarrow> doc" where
  "new_group name creator =
     [(''name'', JStr name), (''admin'', JStr creator), (''members'', JArr [JStr creator])]"

definition create_group :: "state \<Rightarrow> sid \<Rightarrow> string \<Rightarrow> state \<times> effect list" where
  "create_group s c name =
     (case identity s c of
        None \<Rightarrow> (s, [])
      | Some me \<Rightarrow>
          (case find (field_is ''name'' name) (groups s) of
             Some _ \<Rightarrow> (s, [Emit c (AuthError NameReserved)])
           | None \<Rightarrow>
               (case insert_doc (groups s) (new_group name me) of
                  Raised \<Rightarrow> leave s [Throw]
                | Unmodelled \<Rightarrow> (s, [Beyond])
                | Done gs \<Rightarrow>
                    (let s' = s\<lparr>groups := gs\<rparr>
                     in (s', [Wrote Groups, Emit c (UpdateGroupList (groups_of s' me))])))))"

text \<open>
  \<^verbatim>\<open>gp?.admin !== socket.username\<close> compares the admin field (\<^verbatim>\<open>undefined\<close> when there
  is no group or no such field) with \<^verbatim>\<open>socket.username\<close> (\<^verbatim>\<open>undefined\<close> before
  authentication) by strict equality; the handler has no other guard.
\<close>

definition admin_of :: "doc list \<Rightarrow> string \<Rightarrow> json option" where
  "admin_of gs groupName =
     (case find (field_is ''name'' groupName) gs of None \<Rightarrow> None | Some gp \<Rightarrow> map_of gp ''admin'')"

definition add_member :: "state \<Rightarrow> sid \<Rightarrow> string \<Rightarrow> string \<Rightarrow> state \<times> effect list" where
  "add_member s c groupName userToAdd =
     (if admin_of (groups s) groupName \<noteq> map_option JStr (raw_name s c) then (s, [])
      else
        (case coll_update (field_is ''name'' groupName)
                (add_to_set ''members'' (JStr userToAdd)) (groups s) of
           Raised \<Rightarrow> leave s [Throw]
         | Unmodelled \<Rightarrow> (s, [Beyond])
         | Done gs \<Rightarrow>
             (let s' = s\<lparr>groups := gs\<rparr>
              in (s', Wrote Groups #
                       push s' userToAdd (UpdateGroupList (groups_of s' userToAdd))))))"

subsection \<open>get_history (lines 173-177)\<close>

text \<open>
  The sort key of \<^verbatim>\<open>.sort({ timestamp: 1 })\<close>. Every message is written by
  \<open>chat_message\<close>, which stamps it with a date; the order among equal stamps is the
  store's, here the order of insertion.
\<close>

definition stamp :: "doc \<Rightarrow> nat" where
  "stamp m = (case map_of m ''timestamp'' of Some (JDate t) \<Rightarrow> t | _ \<Rightarrow> 0)"

definition history_query :: "string \<Rightarrow> string \<Rightarrow> bool \<Rightarrow> doc \<Rightarrow> bool" where
  "history_query me other isGroup m =
     (if isGroup then field_is ''toGroup'' other m
      else (field_is ''from'' me m \<and> field_is ''to'' other m)
         \<or> (field_is ''from'' other m \<and> field_is ''to'' me m))"

definition get_history :: "state \<Rightarrow> sid \<Rightarrow> string \<Rightarrow> bool \<Rightarrow> state \<times> effect list" where
  "get_history s c other isGroup =
     (case identity s c of
        None \<Rightarrow> (s, [])
      | Some me \<Rightarrow>
          (s, [Emit c (ChatHistory
                 (sort_key stamp (filter (history_query me other isGroup) (messages s))))]))"

subsection \<open>Connections (lines 60, 179-183)\<close>

definition connect :: "state \<Rightarrow> sid \<Rightarrow> state" where
  "connect s c = s\<lparr>sockets := (sockets s)(c \<mapsto> None)\<rparr>"

definition disconnect :: "state \<Rightarrow> sid \<Rightarrow> state" where
  "disconnect s c =
     (case identity s c of
        None \<Rightarrow> s\<lparr>sockets := (sockets s)(c := None)\<rparr>
      | Some u \<Rightarrow> s\<lparr>onlineUsers := (onlineUsers s)(u := None),
                     sockets := (sockets s)(c := None)\<rparr>)"

section \<open>Runs of the server\<close>

text \<open>
  The server starts with empty collections, no connection and an empty presence
  object. A restart keeps the collections (they are files) and nothing else.
  \<open>AuthenticateLate\<close> is an \<open>authenticate\<close> whose line 64 ran earlier in the run: it
  carries the user that was read then.
\<close>

definition init :: state where
  "init = \<lparr>users = [], messages = [], groups = [], onlineUsers = Map.empty,
           sockets = Map.empty\<rparr>"

datatype request =
    Connect sid
  | Authenticate sid string string string bool
  | AuthenticateLate sid "doc option" string string string bool
  | SendRequest sid string
  | AcceptRequest sid string
  | GetProfile sid string
  | UpdateProfile sid doc
  | ChatMessage sid doc nat
  | CreateGroup sid string
  | AddMember sid string string
  | GetHistory sid string bool
  | Disconnect sid
  | Restart

fun step ::
  "(string \<Rightarrow> string) \<Rightarrow> (string \<Rightarrow> string \<Rightarrow> bool) \<Rightarrow> state \<Rightarrow> request \<Rightarrow> state \<times> effect list" where
  "step hash compare s (Connect c) = (connect s c, [])"
| "step hash compare s (Authenticate c u p e r) = authenticate hash compare s c u p e r"
| "step hash compare s (AuthenticateLate c user u p e r) =
     authenticate_from user hash compare s c u p e r"
| "step hash compare s (SendRequest c t) = send_request s c t"
| "step hash compare s (AcceptRequest c f) = accept_request s c f"
| "step hash compare s (GetProfile c t) = get_profile s c t"
| "step hash compare s (UpdateProfile c d) = update_profile s c d"
| "step hash compare s (ChatMessage c d n) = chat_message s c d n"
| "step hash compare s (CreateGroup c n) = create_group s c n"
| "step hash compare s (AddMember c g u) = add_member s c g u"
| "step hash compare s (GetHistory c other g) = get_history s c other g"
| "step hash compare s (Disconnect c) = (disconnect s c, [])"
| "step hash compare s Restart = (crash s, [])"

fun run ::
  "(string \<Rightarrow> string) \<Rightarrow> (string \<Rightarrow> string \<Rightarrow> bool) \<Rightarrow> state \<Rightarrow> request list \<Rightarrow> state" where
  "run hash compare s [] = s"
| "run hash compare s (r # rs) = run hash compare (fst (step hash compare s r)) rs"


section \<open>Reading the friend graph and the groups\<close>






text \<open>
  The field of the record that a payload key writes to: the first segment of its
  path. And a request that hands \<^verbatim>\<open>$set\<close> a key that writes to \<^verbatim>\<open>friends\<close> or to
  \<^verbatim>\<open>username\<close>.
\<close>

definition target_field :: "string \<Rightarrow> string" where
  "target_field key = hd (split_dots key)"


section \<open>Example runs\<close>

text \<open>
  A stand-in for the credential verifier, and the runs that the concrete checks below
  start from: two registered users on two connections, and the same with a group that
  \<open>alice\<close> created.
\<close>

definition demo_hash :: "string \<Rightarrow> string" where
  "demo_hash p = ''#'' @ p"

definition demo_compare :: "string \<Rightarrow> string \<Rightarrow> bool" where
  "demo_compare p h = (h = demo_hash p)"

definition two_users :: state where
  "two_users = run demo_hash demo_compare init
     [Connect 1, Authenticate 1 ''alice'' ''pw1'' ''a@x.org'' True,
      Connect 2, Authenticate 2 ''bob'' ''pw2'' [] True]"

definition with_team :: state where
  "with_team = run demo_hash demo_compare two_users [CreateGroup 1 ''team'']"

definition alice_doc :: doc where
  "alice_doc = [(''username'', JStr ''alice''), (''password'', JStr ''#pw1''),
                (''email'', JStr ''a@x.org''), (''avatar'', JStr ''/uploads/default-avatar.png''),
                (''bio'', JStr []), (''friends'', JArr [])]"

definition bob_doc :: doc where
  "bob_doc = [(''username'', JStr ''bob''), (''password'', JStr ''#pw2''),
              (''email'', JStr []), (''avatar'', JStr ''/uploads/default-avatar.png''),
              (''bio'', JStr []), (''friends'', JArr [])]"

definition with_bio :: state where
  "with_bio = run demo_hash demo_compare two_users [UpdateProfile 2 [(''bio'', JStr ''hello'')]]"

text \<open>
  The same user name authenticating on connection 1 (registration) and then on
  connection 3 (login), both connections live.
\<close>

definition fresh :: state where
  "fresh = run demo_hash demo_compare init [Connect 1, Connect 3]"

definition on_first :: "string \<Rightarrow> state" where
  "on_first u = fst (authenticate demo_hash demo_compare fresh 1 u ''pw1'' [] True)"

definition on_second :: "string \<Rightarrow> state" where
  "on_second u = fst (authenticate demo_hash demo_compare (on_first u) 3 u ''pw1'' [] False)"



section \<open>Facts about the store\<close>

lemmas store_defs =
  field_is_def index_keys_def filed_under_def clashes_def find_user_def insert_user_def
  insert_doc_def coll_update_def update_user_def modified_def set_field_def add_to_set_def
  or_default_def vet_def doc_verdict_def key_verdict_def special_keys_def inherited_names_def

lemmas handler_defs =
  raw_name_def identity_def is_online_def broadcastUserList_def groups_of_def
  default_avatar_def new_user_def bind_connection_def signed_in_def authenticate_from_def
  authenticate_def send_request_def refresh_other_def accept_request_def get_profile_def
  update_profile_def build_msg_def push_def deliver_def chat_message_def new_group_def
  create_group_def admin_of_def add_member_def stamp_def history_query_def get_history_def
  connect_def disconnect_def init_def demo_hash_def demo_compare_def lookup_def
  inherited_names_def store_handle_def crash_def leave_def ended_def name_of_def names_of_def

lemma two_users_eval:
  "two_users = \<lparr>users = [alice_doc, bob_doc], messages = [], groups = [],
                 onlineUsers = [''alice'' \<mapsto> 1, ''bob'' \<mapsto> 2],
                 sockets = [1 \<mapsto> Some ''alice'', 2 \<mapsto> Some ''bob'']\<rparr>"
  by (simp add: two_users_def alice_doc_def bob_doc_def handler_defs store_defs)

lemma with_team_eval:
  "with_team = \<lparr>users = [alice_doc, bob_doc], messages = [],
                 groups = [[(''name'', JStr ''team''), (''admin'', JStr ''alice''),
                            (''members'', JArr [JStr ''alice''])]],
                 onlineUsers = [''alice'' \<mapsto> 1, ''bob'' \<mapsto> 2],
                 sockets = [1 \<mapsto> Some ''alice'', 2 \<mapsto> Some ''bob'']\<rparr>"
  by (simp add: with_team_def two_users_eval handler_defs store_defs)

lemma with_bio_eval:
  "with_bio = \<lparr>users = [alice_doc,
                          [(''username'', JStr ''bob''), (''password'', JStr ''#pw2''),
                           (''email'', JStr []), (''avatar'', JStr ''/uploads/default-avatar.png''),
                           (''bio'', JStr ''hello''), (''friends'', JArr [])]],
                messages = [], groups = [],
                onlineUsers = [''alice'' \<mapsto> 1, ''bob'' \<mapsto> 2],
                sockets = [1 \<mapsto> Some ''alice'', 2 \<mapsto> Some ''bob'']\<rparr>"
  by (simp add: with_bio_def two_users_eval alice_doc_def bob_doc_def handler_defs store_defs)



subsection \<open>Crashes\<close>

lemma crash_keeps [simp]:
  "users (crash s) = users s" "messages (crash s) = messages s" "groups (crash s) = groups s"
  by (simp_all add: crash_def)

lemma leave_keeps [simp]:
  "users (fst (leave s es)) = users s" "messages (fst (leave s es)) = messages s"
  "groups (fst (leave s es)) = groups s" "snd (leave s es) = es"
  by (simp_all add: leave_def)

lemma leave_alive: "Throw \<notin> set es \<Longrightarrow> leave s es = (s, es)"
  by (simp add: leave_def)

subsection \<open>Inserts and lookups\<close>

lemma new_user_accepted: "vet (new_user u h e) = Done (new_user u h e)"
  by (simp add: new_user_def vet_def doc_verdict_def key_verdict_def special_keys_def
        inherited_names_def)


lemma vet_Done: "vet d = Done d' \<Longrightarrow> d' = d"
  by (simp add: vet_def split: verdict.splits)

lemma modified_Done: "modified f d = Done d' \<Longrightarrow> f d = Done d'"
  by (auto simp: modified_def split: outcome.splits dest: vet_Done)

lemma clashes_new_user: "clashes us (new_user u h e) = (find_user us u \<noteq> None)"
  by (auto simp: find_user_def find_None_iff clashes_def index_keys_def new_user_def
        filed_under_def list_ex_iff)

lemma insert_new_user:
  "insert_user us (new_user u h e) =
     (if find_user us u = None then Done (us @ [new_user u h e]) else Raised)"
  by (simp add: insert_user_def new_user_accepted clashes_new_user)


lemma find_app:
  "find P (xs @ ys) = (case find P xs of None \<Rightarrow> find P ys | Some x \<Rightarrow> Some x)"
  by (induction xs) auto




subsection \<open>Updates of the first match\<close>

lemma replace_first_all2:
  "find P us = Some d \<Longrightarrow>
     list_all2 (\<lambda>x y. y = x \<or> (x = d \<and> y = d')) us (replace_first P d' us)"
  by (induction us) (auto simp: list_all2_same)



lemma update_user_cases:
  assumes "update_user us n f = Done us'"
  obtains (none) "find_user us n = None" "us' = us"
    | (some) d d' where "find_user us n = Some d" "f d = Done d'"
        "us' = replace_first (filed_under n) d' us"
proof (cases "find_user us n")
  case None
  with assms have "us' = us" by (simp add: update_user_def)
  with None show ?thesis by (rule none)
next
  case (Some d)
  with assms obtain d' where m: "modified f d = Done d'"
    and us': "us' = replace_first (filed_under n) d' us"
    by (auto simp: update_user_def split: outcome.splits if_splits)
  from m have "f d = Done d'" by (rule modified_Done)
  with Some show ?thesis using us' by (rule some)
qed

lemma update_user_all2:
  assumes "update_user us n f = Done us'"
  shows "list_all2 (\<lambda>x y. y = x \<or> (find_user us n = Some x \<and> f x = Done y)) us us'"
  using assms
proof (cases rule: update_user_cases)
  case none
  then show ?thesis by (simp add: list_all2_same)
next
  case (some d d')
  from some(1) have "find (filed_under n) us = Some d" by (simp add: find_user_def)
  from replace_first_all2 [OF this, of d'] show ?thesis
    unfolding some(3) by (rule list_all2_mono) (use some in auto)
qed


subsection \<open>What the modifiers leave alone\<close>

lemma split_dots_not_Nil: "split_dots k \<noteq> []"
  by (induction k) (auto split: list.splits)

lemma split_dots_plain: "CHR ''.'' \<notin> set k \<Longrightarrow> split_dots k = [k]"
  by (induction k) auto

lemma put_object:
  assumes "put (k # ks) v (JObj fs) = Done t"
  obtains x where "t = JObj (AList.update k x fs)"
  using assms by (auto split: outcome.splits)

lemma set_field_other:
  assumes "set_field key v d = Done d'" and "f \<noteq> target_field key"
  shows "map_of d' f = map_of d f"
proof -
  obtain k ks where sp: "split_dots key = k # ks"
    using split_dots_not_Nil [of key] by (cases "split_dots key") auto
  with assms(1) obtain t where t: "put (k # ks) v (JObj d) = Done t" and d': "t = JObj d'"
    by (auto simp: set_field_def split: if_splits outcome.splits json.splits)
  from t obtain x where "t = JObj (AList.update k x d)" by (rule put_object)
  with d' have "d' = AList.update k x d" by simp
  moreover from sp assms(2) have "f \<noteq> k" by (simp add: target_field_def)
  ultimately show ?thesis by (simp add: update_conv')
qed

lemma set_fields_other:
  assumes "set_fields data d = Done d'" and "f \<notin> target_field ` fst ` set data"
  shows "map_of d' f = map_of d f"
  using assms
proof (induction data d rule: set_fields.induct)
  case (1 d)
  then show ?case by simp
next
  case (2 k v kvs d)
  from "2.prems"(1) obtain d1 where d1: "set_field k v d = Done d1"
    and rest: "set_fields kvs d1 = Done d'"
    by (auto split: outcome.splits)
  from "2.prems"(2) have "f \<noteq> target_field k" "f \<notin> target_field ` fst ` set kvs"
    by auto
  with d1 rest "2.IH" [OF d1] show ?case
    by (simp add: set_field_other)
qed



subsection \<open>Updates that keep names and only add friends\<close>















subsection \<open>Which handlers write which collection\<close>


















subsection \<open>Groups under the handlers\<close>










subsection \<open>What a successful authentication leaves\<close>

lemma signed_in_alive:
  assumes "Throw \<notin> set (snd (signed_in s c u before))"
  shows "sockets (fst (signed_in s c u before)) = (sockets s)(c \<mapsto> Some u)"
    and "onlineUsers (fst (signed_in s c u before)) = store_handle (onlineUsers s) u c"
  using assms
  by (auto simp: signed_in_def Let_def leave_def bind_connection_def split: if_splits)

lemma authenticate_from_shape:
  "(\<exists>us. authenticate_from user hash compare s c u p e r
           = signed_in (s\<lparr>users := us\<rparr>) c u [Wrote Users])
   \<or> authenticate_from user hash compare s c u p e r = signed_in s c u []
   \<or> (\<exists>n. snd (authenticate_from user hash compare s c u p e r) = [Emit c (AuthError n)])
   \<or> snd (authenticate_from user hash compare s c u p e r) = [Beyond]
   \<or> snd (authenticate_from user hash compare s c u p e r) = [Throw]"
  by (auto simp: authenticate_from_def leave_def split: option.splits json.splits outcome.splits)

lemma authenticate_from_binds:
  assumes "Emit c (AuthSuccess u) \<in> set (snd (authenticate_from user hash compare s c u p e r))"
    and "Throw \<notin> set (snd (authenticate_from user hash compare s c u p e r))"
  shows "sockets (fst (authenticate_from user hash compare s c u p e r))
           = (sockets s)(c \<mapsto> Some u)
       \<and> onlineUsers (fst (authenticate_from user hash compare s c u p e r))
           = store_handle (onlineUsers s) u c"
  using authenticate_from_shape [of user hash compare s c u p e r]
proof (elim disjE exE)
  fix us
  assume "authenticate_from user hash compare s c u p e r
            = signed_in (s\<lparr>users := us\<rparr>) c u [Wrote Users]"
  with assms(2) signed_in_alive [of "s\<lparr>users := us\<rparr>" c u "[Wrote Users]"]
  show ?thesis by simp
next
  assume "authenticate_from user hash compare s c u p e r = signed_in s c u []"
  with assms(2) signed_in_alive [of s c u "[]"] show ?thesis by simp
qed (use assms(1) in auto)

lemma new_user_fields:
  "filed_under n (new_user u h e) = (n = u)"
  "map_of (new_user u h e) ''friends'' = Some (JArr [])"
  "map_of (new_user u h e) ''password'' = Some (JStr h)"
  by (auto simp: new_user_def filed_under_def index_keys_def)

lemma on_first_eval:
  "on_first u = \<lparr>users = [new_user u ''#pw1'' []], messages = [], groups = [],
                  onlineUsers = store_handle Map.empty u 1,
                  sockets = [1 \<mapsto> Some u, 3 \<mapsto> None]\<rparr>"
  by (simp add: on_first_def fresh_def authenticate_def authenticate_from_def insert_new_user
        signed_in_def broadcastUserList_def identity_def raw_name_def bind_connection_def
        find_user_def new_user_fields names_of_def ended_def Let_def
        connect_def init_def demo_hash_def fun_upd_twist)

lemma on_second_eval:
  "on_second u = \<lparr>users = [new_user u ''#pw1'' []], messages = [], groups = [],
                   onlineUsers = store_handle Map.empty u 3,
                   sockets = [1 \<mapsto> Some u, 3 \<mapsto> Some u]\<rparr>"
  by (simp add: on_second_def on_first_eval authenticate_def authenticate_from_def
        signed_in_def broadcastUserList_def identity_def raw_name_def bind_connection_def
        find_user_def new_user_fields names_of_def ended_def Let_def
        demo_hash_def demo_compare_def store_handle_def)

section \<open>add_member by a caller who is not the admin\<close>

text \<open>
  C5. When the group named \<open>g\<close> exists and its admin field is not the caller's
  \<^verbatim>\<open>socket.username\<close>, \<open>add_member\<close> returns the state it was given (so the member
  set of \<open>g\<close> is unchanged) and has no effect at all: no error and no other event
  reaches the caller.
\<close>

theorem add_member_non_admin_dropped:
  assumes "find (field_is ''name'' g) (groups s) = Some gp"
    and "map_of gp ''admin'' \<noteq> map_option JStr (raw_name s c)"
  shows "add_member s c g newMember = (s, [])"
  using assms by (simp add: add_member_def admin_of_def)

theorem add_member_non_admin_dropped_witness:
  "find (field_is ''name'' ''team'') (groups with_team) = Some (new_group ''team'' ''alice'')
   \<and> map_of (new_group ''team'' ''alice'') ''admin'' \<noteq> map_option JStr (raw_name with_team 2)
   \<and> add_member with_team 2 ''team'' ''bob'' = (with_team, [])"
proof -
  have a: "find (field_is ''name'' ''team'') (groups with_team) = Some (new_group ''team'' ''alice'')"
    by (simp add: with_team_eval new_group_def field_is_def)
  have b: "map_of (new_group ''team'' ''alice'') ''admin'' \<noteq> map_option JStr (raw_name with_team 2)"
    by (simp add: with_team_eval new_group_def raw_name_def)
  from a b add_member_non_admin_dropped [OF a b] show ?thesis by simp
qed

section \<open>Registration\<close>

text \<open>
  C7 does not hold of the code for the user name \<^verbatim>\<open>__proto__\<close>. The presence object is
  a plain object, and line 92 stores nothing under that name. The registration below
  creates the user, binds connection 1 and reports success, but the presence object
  stays empty: a lookup of the name yields the inherited object and not the handle of
  the connection.
\<close>

theorem register_proto_name_not_registered:
  "find_user (users fresh) ''__proto__'' = None
   \<and> snd (authenticate demo_hash demo_compare fresh 1 ''__proto__'' ''pw1'' [] True)
       = [Wrote Users, Emit 1 (AuthSuccess ''__proto__''), Emit 1 (UpdateUserList []),
          Emit 1 (UpdateGroupList [])]
   \<and> users (fst (authenticate demo_hash demo_compare fresh 1 ''__proto__'' ''pw1'' [] True))
       = [[(''username'', JStr ''__proto__''), (''password'', JStr ''#pw1''),
           (''email'', JStr []), (''avatar'', JStr ''/uploads/default-avatar.png''),
           (''bio'', JStr []), (''friends'', JArr [])]]
   \<and> sockets (fst (authenticate demo_hash demo_compare fresh 1 ''__proto__'' ''pw1'' [] True)) 1
       = Some (Some ''__proto__'')
   \<and> onlineUsers (fst (authenticate demo_hash demo_compare fresh 1 ''__proto__'' ''pw1'' [] True))
        ''__proto__'' = None
   \<and> lookup (onlineUsers
                (fst (authenticate demo_hash demo_compare fresh 1 ''__proto__'' ''pw1'' [] True)))
        ''__proto__'' = Inherited"
  by (simp add: fresh_def handler_defs store_defs Let_def)

text \<open>
  What registration does for every user name, from line 66 on, with \<open>user\<close> the result
  of the read of line 64. When that read found a user, the only effect is the
  \<^verbatim>\<open>auth_error\<close> of line 69. When it found none but a user is filed under the name by
  the time of the insert, the unique key refuses the insert and the only effect is the
  \<^verbatim>\<open>auth_error\<close> of line 83. In both cases the state is unchanged. Otherwise exactly one
  user document is appended, holding the hashed password, an empty friends array and
  the default avatar; the connection is bound to the name; line 92 is run; success and
  the two snapshots are emitted. Messages and groups are untouched.
\<close>

theorem register_outcomes:
  "(user \<noteq> None \<longrightarrow>
      authenticate_from user hash compare s c u p e True
        = (s, [Emit c (AuthError UsernameTaken)]))
   \<and> (user = None \<and> find_user (users s) u \<noteq> None \<longrightarrow>
        authenticate_from user hash compare s c u p e True
          = (s, [Emit c (AuthError RegistrationFailed)]))
   \<and> (user = None \<and> find_user (users s) u = None \<longrightarrow>
        users (fst (authenticate_from user hash compare s c u p e True)) =
          users s @ [[(''username'', JStr u), (''password'', JStr (hash p)), (''email'', JStr e),
                      (''avatar'', JStr ''/uploads/default-avatar.png''), (''bio'', JStr []),
                      (''friends'', JArr [])]]
        \<and> sockets (fst (authenticate_from user hash compare s c u p e True)) c = Some (Some u)
        \<and> onlineUsers (fst (authenticate_from user hash compare s c u p e True))
            = store_handle (onlineUsers s) u c
        \<and> (u \<noteq> ''__proto__'' \<longrightarrow>
             lookup (onlineUsers (fst (authenticate_from user hash compare s c u p e True))) u
               = Handle c)
        \<and> messages (fst (authenticate_from user hash compare s c u p e True)) = messages s
        \<and> groups (fst (authenticate_from user hash compare s c u p e True)) = groups s
        \<and> snd (authenticate_from user hash compare s c u p e True)
            = Wrote Users # Emit c (AuthSuccess u)
                # (if u = [] then [] else [Emit c (UpdateUserList [])])
                @ [Emit c (UpdateGroupList (filter (field_is ''members'' u) (groups s)))])"
proof (intro conjI impI)
  assume "user \<noteq> None"
  then show "authenticate_from user hash compare s c u p e True
        = (s, [Emit c (AuthError UsernameTaken)])"
    by (auto simp: authenticate_from_def)
next
  assume "user = None \<and> find_user (users s) u \<noteq> None"
  then show "authenticate_from user hash compare s c u p e True
          = (s, [Emit c (AuthError RegistrationFailed)])"
    by (auto simp: authenticate_from_def insert_new_user)
next
  assume n: "user = None \<and> find_user (users s) u = None"
  let ?d = "new_user u (hash p) e"
  let ?s' = "bind_connection (s\<lparr>users := users s @ [?d]\<rparr>) c u"
  let ?es = "Wrote Users # Emit c (AuthSuccess u)
                # (if u = [] then [] else [Emit c (UpdateUserList [])])
                @ [Emit c (UpdateGroupList (filter (field_is ''members'' u) (groups s)))]"
  from n have found: "find_user (users s @ [?d]) u = Some ?d"
    by (simp add: find_user_def find_app new_user_fields)
  have id: "identity ?s' c = (if u = [] then None else Some u)"
    by (simp add: identity_def raw_name_def bind_connection_def)
  have us': "users ?s' = users s @ [?d]" and gs': "groups ?s' = groups s"
    by (simp_all add: bind_connection_def)
  have b: "broadcastUserList ?s' c = (if u = [] then [] else [Emit c (UpdateUserList [])])"
  proof (cases "u = []")
    case True
    with id show ?thesis by (simp add: broadcastUserList_def)
  next
    case False
    with id found us' show ?thesis
      by (simp add: broadcastUserList_def new_user_fields names_of_def)
  qed
  have "signed_in (s\<lparr>users := users s @ [?d]\<rparr>) c u [Wrote Users] = (?s', ?es)"
    by (simp add: signed_in_def b ended_def groups_of_def gs' Let_def)
  with n have eq: "authenticate_from user hash compare s c u p e True = (?s', ?es)"
    by (simp add: authenticate_from_def insert_new_user)
  show "users (fst (authenticate_from user hash compare s c u p e True)) =
          users s @ [[(''username'', JStr u), (''password'', JStr (hash p)), (''email'', JStr e),
                      (''avatar'', JStr ''/uploads/default-avatar.png''), (''bio'', JStr []),
                      (''friends'', JArr [])]]"
    by (simp add: eq bind_connection_def new_user_def default_avatar_def)
  show "sockets (fst (authenticate_from user hash compare s c u p e True)) c = Some (Some u)"
    by (simp add: eq bind_connection_def)
  show "onlineUsers (fst (authenticate_from user hash compare s c u p e True))
            = store_handle (onlineUsers s) u c"
    by (simp add: eq bind_connection_def)
  show "lookup (onlineUsers (fst (authenticate_from user hash compare s c u p e True))) u
               = Handle c" if "u \<noteq> ''__proto__''"
    using that by (simp add: eq bind_connection_def store_handle_def lookup_def)
  show "messages (fst (authenticate_from user hash compare s c u p e True)) = messages s"
    by (simp add: eq bind_connection_def)
  show "groups (fst (authenticate_from user hash compare s c u p e True)) = groups s"
    by (simp add: eq bind_connection_def)
  show "snd (authenticate_from user hash compare s c u p e True) = ?es"
    by (simp add: eq)
qed

theorem register_outcomes_witness:
  "authenticate_from (Some alice_doc) demo_hash demo_compare two_users 3 ''alice'' ''x'' [] True
       = (two_users, [Emit 3 (AuthError UsernameTaken)])
   \<and> find_user (users two_users) ''alice'' \<noteq> None
   \<and> authenticate_from None demo_hash demo_compare two_users 3 ''alice'' ''x'' [] True
       = (two_users, [Emit 3 (AuthError RegistrationFailed)])
   \<and> find_user (users two_users) ''carol'' = None
   \<and> users (fst (authenticate_from None demo_hash demo_compare two_users 3 ''carol'' ''pw3'' [] True))
       = users two_users @
           [[(''username'', JStr ''carol''), (''password'', JStr (demo_hash ''pw3'')),
             (''email'', JStr []), (''avatar'', JStr ''/uploads/default-avatar.png''),
             (''bio'', JStr []), (''friends'', JArr [])]]
   \<and> lookup (onlineUsers
               (fst (authenticate_from None demo_hash demo_compare two_users 3 ''carol'' ''pw3'' [] True)))
        ''carol'' = Handle 3"
proof -
  have a: "find_user (users two_users) ''alice'' \<noteq> None"
    by (simp add: two_users_eval alice_doc_def store_defs)
  have b: "find_user (users two_users) ''carol'' = None"
    by (simp add: two_users_eval alice_doc_def bob_doc_def store_defs)
  have c: "''carol'' \<noteq> ''__proto__''" by simp
  note t = register_outcomes [where hash = demo_hash and compare = demo_compare
      and s = two_users and c = 3 and e = "[]"]
  from t [where user = "Some alice_doc" and u = "''alice''" and p = "''x''"]
  have 1: "authenticate_from (Some alice_doc) demo_hash demo_compare two_users 3 ''alice'' ''x'' [] True
       = (two_users, [Emit 3 (AuthError UsernameTaken)])"
    by blast
  from a t [where user = None and u = "''alice''" and p = "''x''"]
  have 2: "authenticate_from None demo_hash demo_compare two_users 3 ''alice'' ''x'' [] True
       = (two_users, [Emit 3 (AuthError RegistrationFailed)])"
    by blast
  from b c t [where user = None and u = "''carol''" and p = "''pw3''"]
  have 3: "users (fst (authenticate_from None demo_hash demo_compare two_users 3 ''carol'' ''pw3'' [] True))
       = users two_users @
           [[(''username'', JStr ''carol''), (''password'', JStr (demo_hash ''pw3'')),
             (''email'', JStr []), (''avatar'', JStr ''/uploads/default-avatar.png''),
             (''bio'', JStr []), (''friends'', JArr [])]]"
    and 4: "lookup (onlineUsers
               (fst (authenticate_from None demo_hash demo_compare two_users 3 ''carol'' ''pw3'' [] True)))
        ''carol'' = Handle 3"
    by blast+
  from a b 1 2 3 4 show ?thesis by blast
qed

section \<open>chat_message: persist, then deliver\<close>




section \<open>send_request to a target that is not registered\<close>




section \<open>Disconnect of a superseded connection\<close>

text \<open>
  C9, as stated, fails for the empty user name: it registers and logs in like any
  other, but line 180 reads it as no identity, so the disconnect of connection 1
  deletes nothing and the lookup still yields connection 3. It fails as well for a
  name that every object inherits: for \<open>constructor\<close> the entry is deleted, and the
  lookup then yields the inherited function, which line 46 reads as online.
\<close>

theorem stale_disconnect_empty_name_counterexample:
  "Emit 1 (AuthSuccess []) \<in> set (snd (authenticate demo_hash demo_compare fresh 1 [] ''pw1'' [] True))
   \<and> Emit 3 (AuthSuccess [])
        \<in> set (snd (authenticate demo_hash demo_compare (on_first []) 3 [] ''pw1'' [] False))
   \<and> onlineUsers (on_second []) [] = Some 3
   \<and> onlineUsers (disconnect (on_second []) 1) [] = Some 3
   \<and> lookup (onlineUsers (on_second ''constructor'')) ''constructor'' = Handle 3
   \<and> onlineUsers (disconnect (on_second ''constructor'') 1) ''constructor'' = None
   \<and> lookup (onlineUsers (disconnect (on_second ''constructor'') 1)) ''constructor'' = Inherited
   \<and> is_online (disconnect (on_second ''constructor'') 1) ''constructor''"
  by (simp add: on_first_eval on_second_eval fresh_def new_user_fields new_user_def
        handler_defs store_defs Let_def)

text \<open>
  C9, amended: let a user name that is not empty and that no object inherits
  authenticate on connection \<open>a\<close> and then on another connection \<open>b\<close>. The presence
  entry is overwritten with \<open>b\<close>; the disconnect of \<open>a\<close> then deletes the entry, so
  the lookup yields nothing although \<open>b\<close> is still live and bound to the name.
\<close>

theorem stale_disconnect_clears_presence:
  assumes "u \<noteq> []" and "u \<notin> set inherited_names" and "a \<noteq> b"
    and "s1 = fst (authenticate_from user hash compare s a u p e r)"
    and "Emit a (AuthSuccess u) \<in> set (snd (authenticate_from user hash compare s a u p e r))"
    and "Throw \<notin> set (snd (authenticate_from user hash compare s a u p e r))"
    and "s2 = fst (authenticate_from user' hash compare s1 b u p' e' r')"
    and "Emit b (AuthSuccess u) \<in> set (snd (authenticate_from user' hash compare s1 b u p' e' r'))"
    and "Throw \<notin> set (snd (authenticate_from user' hash compare s1 b u p' e' r'))"
  shows "lookup (onlineUsers s2) u = Handle b
       \<and> lookup (onlineUsers (disconnect s2 a)) u = Absent
       \<and> sockets (disconnect s2 a) b = Some (Some u)"
proof -
  from assms(2) have np: "u \<noteq> ''__proto__''"
    by (auto simp: inherited_names_def)
  from assms(4,5,6) have 1: "sockets s1 = (sockets s)(a \<mapsto> Some u)"
    using authenticate_from_binds by blast
  from assms(7,8,9) have 2: "sockets s2 = (sockets s1)(b \<mapsto> Some u)"
    and 3: "onlineUsers s2 = store_handle (onlineUsers s1) u b"
    using authenticate_from_binds by blast+
  from 1 2 assms(1,3) have "identity s2 a = Some u"
    by (simp add: identity_def raw_name_def)
  with 2 3 np assms(2,3) show ?thesis
    by (simp add: disconnect_def store_handle_def lookup_def)
qed

theorem stale_disconnect_clears_presence_witness:
  "''alice'' \<noteq> [] \<and> ''alice'' \<notin> set inherited_names \<and> (1::nat) \<noteq> 3
   \<and> Emit 1 (AuthSuccess ''alice'')
        \<in> set (snd (authenticate_from None demo_hash demo_compare fresh 1 ''alice'' ''pw1'' [] True))
   \<and> Throw \<notin> set (snd (authenticate_from None demo_hash demo_compare fresh 1 ''alice'' ''pw1'' [] True))
   \<and> Emit 3 (AuthSuccess ''alice'')
        \<in> set (snd (authenticate_from (find_user (users (on_first ''alice'')) ''alice'')
                      demo_hash demo_compare (on_first ''alice'') 3 ''alice'' ''pw1'' [] False))
   \<and> Throw \<notin> set (snd (authenticate_from (find_user (users (on_first ''alice'')) ''alice'')
                      demo_hash demo_compare (on_first ''alice'') 3 ''alice'' ''pw1'' [] False))
   \<and> lookup (onlineUsers (on_second ''alice'')) ''alice'' = Handle 3
   \<and> lookup (onlineUsers (disconnect (on_second ''alice'') 1)) ''alice'' = Absent
   \<and> sockets (disconnect (on_second ''alice'') 1) 3 = Some (Some ''alice'')"
proof -
  let ?r1 = "authenticate_from None demo_hash demo_compare fresh 1 ''alice'' ''pw1'' [] True"
  let ?r2 = "authenticate_from (find_user (users (on_first ''alice'')) ''alice'')
               demo_hash demo_compare (on_first ''alice'') 3 ''alice'' ''pw1'' [] False"
  have a: "''alice'' \<noteq> []" and b: "''alice'' \<notin> set inherited_names" and c: "(1::nat) \<noteq> 3"
    by (simp_all add: inherited_names_def)
  have d: "on_first ''alice'' = fst ?r1"
    by (simp add: on_first_def authenticate_def fresh_def handler_defs store_defs)
  have e: "Emit 1 (AuthSuccess ''alice'') \<in> set (snd ?r1)" and f: "Throw \<notin> set (snd ?r1)"
    by (simp_all add: fresh_def handler_defs store_defs Let_def)
  have g: "on_second ''alice'' = fst ?r2"
    by (simp add: on_second_def authenticate_def)
  have h: "Emit 3 (AuthSuccess ''alice'') \<in> set (snd ?r2)" and i: "Throw \<notin> set (snd ?r2)"
    by (simp_all add: on_first_eval new_user_fields new_user_def handler_defs store_defs Let_def)
  from a b c e f h i stale_disconnect_clears_presence [OF a b c d e f g h i]
  show ?thesis by simp
qed

section \<open>get_profile\<close>

text \<open>
  C10, as stated, fails on the bio: line 134 sends the placeholder text in place of an
  empty bio. A connection that never authenticated asks for \<open>alice\<close>, whose stored bio is
  the empty string of registration, and is sent the placeholder.
\<close>

theorem get_profile_empty_bio_counterexample:
  "identity (connect two_users 9) 9 = None
   \<and> find_user (users (connect two_users 9)) ''alice'' = Some alice_doc
   \<and> map_of alice_doc ''bio'' = Some (JStr [])
   \<and> snd (get_profile (connect two_users 9) 9 ''alice'')
       = [Emit 9 (ProfileData (Some (JStr ''alice'')) (JStr no_bio)
                    (JStr ''/uploads/default-avatar.png'') (Some (JStr ''a@x.org'')))]
   \<and> JStr no_bio \<noteq> JStr []"
  by (simp add: two_users_eval alice_doc_def connect_def identity_def raw_name_def
        get_profile_def default_avatar_def no_bio_def store_defs)

text \<open>
  C10, amended: \<open>get_profile\<close> reads no identity. On every connection it emits nothing
  and changes nothing when no user is filed under the target; otherwise it emits one
  \<^verbatim>\<open>profile_data\<close> to the caller, holding the user's username and email as stored, the
  stored bio or, when that is empty or missing, the placeholder text, and the stored
  avatar or, when that is empty or missing, the default avatar path.
\<close>

theorem get_profile_without_authentication:
  "(find_user (users s) target = None \<longrightarrow> get_profile s c target = (s, []))
   \<and> (\<forall>u. find_user (users s) target = Some u \<longrightarrow>
         get_profile s c target =
           (s, [Emit c (ProfileData (map_of u ''username'')
                  (if truthy (map_of u ''bio'') then the (map_of u ''bio'') else JStr no_bio)
                  (if truthy (map_of u ''avatar'') then the (map_of u ''avatar'')
                   else JStr ''/uploads/default-avatar.png'')
                  (map_of u ''email''))]))"
  by (auto simp: get_profile_def or_default_def default_avatar_def split: option.splits)

theorem get_profile_without_authentication_witness:
  "identity (connect with_bio 9) 9 = None
   \<and> find_user (users (connect with_bio 9)) ''carol'' = None
   \<and> get_profile (connect with_bio 9) 9 ''carol'' = (connect with_bio 9, [])
   \<and> find_user (users (connect with_bio 9)) ''bob'' \<noteq> None
   \<and> get_profile (connect with_bio 9) 9 ''bob''
       = (connect with_bio 9,
          [Emit 9 (ProfileData (Some (JStr ''bob'')) (JStr ''hello'')
                     (JStr ''/uploads/default-avatar.png'') (Some (JStr [])))])"
proof -
  let ?s = "connect with_bio 9"
  let ?bob = "[(''username'', JStr ''bob''), (''password'', JStr ''#pw2''),
               (''email'', JStr []), (''avatar'', JStr ''/uploads/default-avatar.png''),
               (''bio'', JStr ''hello''), (''friends'', JArr [])]"
  have a: "identity ?s 9 = None"
    by (simp add: connect_def identity_def raw_name_def)
  have b: "find_user (users ?s) ''carol'' = None"
    by (simp add: with_bio_eval alice_doc_def connect_def store_defs)
  have c: "find_user (users ?s) ''bob'' = Some ?bob"
    by (simp add: with_bio_eval alice_doc_def connect_def store_defs)
  note t = get_profile_without_authentication [of ?s _ 9]
  from b t [of "''carol''"] have 1: "get_profile ?s 9 ''carol'' = (?s, [])"
    by simp
  from c t [of "''bob''"] have 2: "get_profile ?s 9 ''bob''
       = (?s, [Emit 9 (ProfileData (Some (JStr ''bob'')) (JStr ''hello'')
                     (JStr ''/uploads/default-avatar.png'') (Some (JStr [])))])"
    by simp
  from a b c 1 2 show ?thesis by simp
qed

section \<open>update_profile\<close>

text \<open>
  C2, as stated, fails: line 140 hands the whole payload to \<^verbatim>\<open>$set\<close>. A payload naming
  \<^verbatim>\<open>password\<close> and \<^verbatim>\<open>friends\<close> overwrites both fields of the caller's record.
\<close>

theorem update_profile_overwrites_counterexample:
  "identity two_users 1 = Some ''alice''
   \<and> find_user (users two_users) ''alice'' = Some alice_doc
   \<and> map_of alice_doc ''password'' = Some (JStr ''#pw1'')
   \<and> map_of alice_doc ''friends'' = Some (JArr [])
   \<and> snd (update_profile two_users 1
             [(''password'', JStr ''x''), (''friends'', JArr [JStr ''bob''])])
       = [Wrote Users]
   \<and> map_option (\<lambda>d. (map_of d ''password'', map_of d ''friends''))
        (find_user
           (users (fst (update_profile two_users 1
                          [(''password'', JStr ''x''), (''friends'', JArr [JStr ''bob''])])))
           ''alice'')
       = Some (Some (JStr ''x''), Some (JArr [JStr ''bob'']))"
  by (simp add: two_users_eval alice_doc_def bob_doc_def identity_def raw_name_def
        update_profile_def store_defs)

text \<open>
  C2, amended: for every connection bound to user \<open>u\<close> and every payload whose keys
  are among \<^verbatim>\<open>bio\<close>, \<^verbatim>\<open>avatar\<close> and \<^verbatim>\<open>email\<close>, \<open>update_profile\<close> changes at most
  these three fields of the record filed under \<open>u\<close>; every other field of that record
  (username, password hash, friends) and every other record is unchanged by the call,
  and so are the messages and the groups. This is shown for the calls whose handling
  by the store is modelled. When the store refuses the rewritten record, no record
  changes and the exception ends the process; otherwise presence and connections are
  unchanged as well.
\<close>

theorem update_profile_frame:
  assumes "identity s c = Some u"
    and "fst ` set data \<subseteq> {''bio'', ''avatar'', ''email''}"
    and "Beyond \<notin> set (snd (update_profile s c data))"
  shows "list_all2 (\<lambda>d d'. (d' = d \<or> find_user (users s) u = Some d)
                         \<and> (\<forall>k. k \<notin> {''bio'', ''avatar'', ''email''} \<longrightarrow>
                                map_of d' k = map_of d k))
           (users s) (users (fst (update_profile s c data)))
       \<and> messages (fst (update_profile s c data)) = messages s
       \<and> groups (fst (update_profile s c data)) = groups s
       \<and> (Throw \<in> set (snd (update_profile s c data)) \<longrightarrow>
            users (fst (update_profile s c data)) = users s)
       \<and> (Throw \<notin> set (snd (update_profile s c data)) \<longrightarrow>
            onlineUsers (fst (update_profile s c data)) = onlineUsers s
          \<and> sockets (fst (update_profile s c data)) = sockets s)"
proof -
  let ?us' = "users (fst (update_profile s c data))"
  let ?R = "\<lambda>d d'. (d' = d \<or> find_user (users s) u = Some d)
                  \<and> (\<forall>k. k \<notin> {''bio'', ''avatar'', ''email''} \<longrightarrow> map_of d' k = map_of d k)"
  have plain: "target_field k = k" if "k \<in> {''bio'', ''avatar'', ''email''}" for k
    using that by (auto simp: target_field_def)
  have out: "k \<notin> target_field ` fst ` set data" if "k \<notin> {''bio'', ''avatar'', ''email''}" for k
  proof
    assume "k \<in> target_field ` fst ` set data"
    then obtain key where key: "key \<in> fst ` set data" and k: "k = target_field key"
      by blast
    from assms(2) key have "key \<in> {''bio'', ''avatar'', ''email''}" by (rule subsetD)
    with k plain have "k \<in> {''bio'', ''avatar'', ''email''}" by simp
    with that show False by simp
  qed
  have main: "list_all2 ?R (users s) ?us'"
  proof (cases "update_user (users s) u (set_fields data)")
    case (Done us')
    with assms(1) have eq: "?us' = us'" by (simp add: update_profile_def)
    from update_user_all2 [OF Done] show ?thesis
      unfolding eq
    proof (rule list_all2_mono)
      fix d d'
      assume step: "d' = d \<or> find_user (users s) u = Some d \<and> set_fields data d = Done d'"
      then show "?R d d'"
      proof
        assume "d' = d"
        then show ?thesis by simp
      next
        assume w: "find_user (users s) u = Some d \<and> set_fields data d = Done d'"
        then have sf: "set_fields data d = Done d'" by simp
        have "map_of d' k = map_of d k" if "k \<notin> {''bio'', ''avatar'', ''email''}" for k
          using sf out [OF that] by (rule set_fields_other)
        with w show ?thesis by simp
      qed
    qed
  next
    case Raised
    with assms(1) show ?thesis by (simp add: update_profile_def list_all2_same)
  next
    case Unmodelled
    with assms(1) show ?thesis by (simp add: update_profile_def list_all2_same)
  qed
  have rest: "messages (fst (update_profile s c data)) = messages s"
    "groups (fst (update_profile s c data)) = groups s"
    "Throw \<in> set (snd (update_profile s c data)) \<Longrightarrow> ?us' = users s"
    "Throw \<notin> set (snd (update_profile s c data)) \<Longrightarrow>
       onlineUsers (fst (update_profile s c data)) = onlineUsers s"
    "Throw \<notin> set (snd (update_profile s c data)) \<Longrightarrow>
       sockets (fst (update_profile s c data)) = sockets s"
    using assms(1) by (simp_all add: update_profile_def leave_def split: outcome.splits)
  from main rest show ?thesis by simp
qed

theorem update_profile_frame_witness:
  "identity two_users 2 = Some ''bob''
   \<and> fst ` set [(''bio'', JStr ''hello'')] \<subseteq> {''bio'', ''avatar'', ''email''}
   \<and> snd (update_profile two_users 2 [(''bio'', JStr ''hello'')]) = [Wrote Users]
   \<and> users two_users \<noteq> users with_bio
   \<and> list_all2 (\<lambda>d d'. map_of d' ''username'' = map_of d ''username''
                      \<and> map_of d' ''password'' = map_of d ''password''
                      \<and> map_of d' ''friends'' = map_of d ''friends'')
       (users two_users) (users with_bio)
   \<and> onlineUsers with_bio = onlineUsers two_users
   \<and> sockets with_bio = sockets two_users"
proof -
  let ?data = "[(''bio'', JStr ''hello'')]"
  have a: "identity two_users 2 = Some ''bob''"
    by (simp add: two_users_eval identity_def raw_name_def)
  have b: "fst ` set ?data \<subseteq> {''bio'', ''avatar'', ''email''}"
    by simp
  have e: "snd (update_profile two_users 2 ?data) = [Wrote Users]"
    by (simp add: two_users_eval alice_doc_def bob_doc_def identity_def raw_name_def
          update_profile_def store_defs)
  then have f: "Beyond \<notin> set (snd (update_profile two_users 2 ?data))"
    and g: "Throw \<notin> set (snd (update_profile two_users 2 ?data))"
    by simp_all
  have c: "with_bio = fst (update_profile two_users 2 ?data)"
    by (simp add: with_bio_def)
  have d: "users two_users \<noteq> users with_bio"
    by (simp add: two_users_eval with_bio_eval bob_doc_def)
  note t = update_profile_frame [OF a b f, folded c]
  from t have "list_all2 (\<lambda>d d'. (d' = d \<or> find_user (users two_users) ''bob'' = Some d)
                         \<and> (\<forall>k. k \<notin> {''bio'', ''avatar'', ''email''} \<longrightarrow>
                                map_of d' k = map_of d k))
           (users two_users) (users with_bio)"
    by simp
  then have 1: "list_all2 (\<lambda>d d'. map_of d' ''username'' = map_of d ''username''
                      \<and> map_of d' ''password'' = map_of d ''password''
                      \<and> map_of d' ''friends'' = map_of d ''friends'')
       (users two_users) (users with_bio)"
    by (rule list_all2_mono) simp
  from t g have 2: "onlineUsers with_bio = onlineUsers two_users"
    "sockets with_bio = sockets two_users"
    by simp_all
  from a b e d 1 2 show ?thesis by simp
qed

section \<open>accept_request\<close>




section \<open>Every group holds its admin\<close>



section \<open>get_history\<close>

text \<open>
  C1 does not hold of the code. \<open>chat_message\<close> stores the target of a message, a
  group name included, under \<^verbatim>\<open>to\<close> (lines 146-150), but the group branch of line 175
  selects on \<^verbatim>\<open>toGroup\<close>. In the run below \<open>alice\<close> sends \<open>hi\<close> to her group \<open>team\<close>;
  the message is stored, and her group history of \<open>team\<close> is empty. The direct branch
  of the same line selects on \<^verbatim>\<open>to\<close>: her message to \<open>bob\<close> is in their history.
\<close>

theorem get_history_group_misses_stored_message:
  "identity with_team 1 = Some ''alice''
   \<and> messages (fst (chat_message with_team 1
        [(''to'', JStr ''team''), (''isGroup'', JBool True), (''body'', JStr ''hi'')] 5))
       = [[(''to'', JStr ''team''), (''isGroup'', JBool True), (''body'', JStr ''hi''),
           (''from'', JStr ''alice''), (''timestamp'', JDate 5)]]
   \<and> snd (get_history
             (fst (chat_message with_team 1
                [(''to'', JStr ''team''), (''isGroup'', JBool True), (''body'', JStr ''hi'')] 5))
             1 ''team'' True)
       = [Emit 1 (ChatHistory [])]
   \<and> snd (get_history
             (fst (chat_message with_team 1
                [(''to'', JStr ''bob''), (''isGroup'', JBool False), (''body'', JStr ''hi'')] 5))
             1 ''bob'' False)
       = [Emit 1 (ChatHistory
            [[(''to'', JStr ''bob''), (''isGroup'', JBool False), (''body'', JStr ''hi''),
              (''from'', JStr ''alice''), (''timestamp'', JDate 5)]])]"
  by (simp add: with_team_eval alice_doc_def bob_doc_def handler_defs store_defs Let_def)

text \<open>
  What \<open>get_history\<close> does return, in either mode: one \<^verbatim>\<open>chat_history\<close> to the
  requester, holding exactly the stored messages that the query of line 175 selects,
  in ascending order of their timestamps.
\<close>

theorem get_history_selects_and_sorts:
  assumes "identity s c = Some me"
  shows "\<exists>h. get_history s c other isGroup = (s, [Emit c (ChatHistory h)])
           \<and> sorted (map stamp h)
           \<and> set h = {m \<in> set (messages s). history_query me other isGroup m}
           \<and> length h = length (filter (history_query me other isGroup) (messages s))"
  using assms by (simp add: get_history_def)

theorem get_history_selects_and_sorts_witness:
  "identity with_team 1 = Some ''alice''
   \<and> (\<exists>h. get_history with_team 1 ''bob'' False = (with_team, [Emit 1 (ChatHistory h)])
          \<and> length h = 0)"
proof -
  have a: "identity with_team 1 = Some ''alice''"
    by (simp add: with_team_eval identity_def raw_name_def)
  have b: "messages with_team = []"
    by (simp add: with_team_eval)
  from get_history_selects_and_sorts [OF a, of "''bob''" False] a b show ?thesis
    by auto
qed

end
